theory Spec2Isabelle
  imports Main "HOL-Library.Sublist"
begin

section \<open>The RESTJSON encoder of \<^verbatim>\<open>private/protocol/restjson/encode.go\<close>\<close>

subsection \<open>Targets, errors and the two delegate encoders\<close>

text \<open>
  Modelled from the spec: the declaration of \<^verbatim>\<open>protocol.Target\<close> is not part of
  \<^verbatim>\<open>encode.go\<close>. The spec lists the variants Path, Query, Header, Headers, Body
  and Payload; they carry the names of the constants the switches of
  \<^verbatim>\<open>encode.go\<close> use. A Go enumeration is an integer type, so a value that is none
  of these constants exists as well: \<open>OtherTarget n\<close> stands for it, and every switch
  sends it to its \<^verbatim>\<open>default\<close> branch.
\<close>

datatype Target =
    PathTarget
  | QueryTarget
  | HeaderTarget
  | HeadersTarget
  | BodyTarget
  | PayloadTarget
  | OtherTarget nat

text \<open>
  A Go \<^verbatim>\<open>error\<close> is represented by its message: \<open>Errorf m\<close> is the error whose
  \<^verbatim>\<open>Error()\<close> text is \<open>m\<close>, as \<^verbatim>\<open>fmt.Errorf\<close> builds it once the format
  string has been filled in.
\<close>

datatype error = Errorf string

text \<open>
  Modelled from the spec: \<^verbatim>\<open>rest.Encoder\<close> and \<^verbatim>\<open>json.Encoder\<close> (the spec's
  Structural Encoder and Body Encoder) are not part of \<^verbatim>\<open>encode.go\<close>. The spec
  describes them as external collaborators that receive the calls the core forwards,
  with content untouched, and that are finalised once. Each of the two objects is
  therefore represented by the calls it has received so far, oldest first. The
  marshalers, the writer callbacks and the metadata are opaque values of the type
  parameters \<open>'v\<close> (value marshaler), \<open>'s\<close> (stream marshaler), \<open>'l\<close> (list
  writer), \<open>'m\<close> (map writer), \<open>'f\<close> (field marshaler) and \<open>'d\<close> (metadata).
\<close>

datatype ('v, 's, 'l, 'm, 'f, 'd) call =
    SetValueCall Target string 'v 'd
  | SetStreamCall Target string 's 'd
  | SetListCall Target string 'l 'd
  | SetMapCall Target string 'm 'd
  | SetFieldsCall Target string 'f 'd
  | EncodeCall

type_synonym ref = nat

subsection \<open>The encoder and the store it points into\<close>

text \<open>
  The struct \<^verbatim>\<open>Encoder\<close>, field by field. \<open>reqEncoder\<close> and \<open>bodyEncoder\<close>
  are pointers; \<open>buf\<close> is a pointer that no function of the file assigns; \<open>err\<close>
  is the latched error, \<open>None\<close> for \<^verbatim>\<open>nil\<close>. The field \<^verbatim>\<open>method\<close> is called
  \<open>method_str\<close> here, its own name being a keyword of Isabelle.
\<close>

record Encoder =
  method_str :: string
  reqEncoder :: ref
  bodyEncoder :: ref
  buf :: "ref option"
  err :: "error option"

text \<open>
  The state a method of \<^verbatim>\<open>*Encoder\<close> works on: the struct itself, and the objects
  its two pointers can reach. The two pointers have different types, so the objects
  live in two stores and never alias.
\<close>

record ('v, 's, 'l, 'm, 'f, 'd) state =
  enc :: Encoder
  rest_encoders :: "ref \<Rightarrow> ('v, 's, 'l, 'm, 'f, 'd) call list"
  json_encoders :: "ref \<Rightarrow> ('v, 's, 'l, 'm, 'f, 'd) call list"

text \<open>The calls received by the object behind \<^verbatim>\<open>e.reqEncoder\<close> and \<^verbatim>\<open>e.bodyEncoder\<close>.\<close>

definition rest_calls :: "('v, 's, 'l, 'm, 'f, 'd) state \<Rightarrow> ('v, 's, 'l, 'm, 'f, 'd) call list" where
  "rest_calls s = rest_encoders s (reqEncoder (enc s))"

definition json_calls :: "('v, 's, 'l, 'm, 'f, 'd) state \<Rightarrow> ('v, 's, 'l, 'm, 'f, 'd) call list" where
  "json_calls s = json_encoders s (bodyEncoder (enc s))"

text \<open>A method call \<^verbatim>\<open>e.reqEncoder.M(...)\<close>, respectively \<^verbatim>\<open>e.bodyEncoder.M(...)\<close>.\<close>

definition call_reqEncoder ::
  "('v, 's, 'l, 'm, 'f, 'd) call \<Rightarrow> ('v, 's, 'l, 'm, 'f, 'd) state \<Rightarrow> ('v, 's, 'l, 'm, 'f, 'd) state" where
  "call_reqEncoder c s =
     s\<lparr>rest_encoders := (rest_encoders s)(reqEncoder (enc s) := rest_encoders s (reqEncoder (enc s)) @ [c])\<rparr>"

definition call_bodyEncoder ::
  "('v, 's, 'l, 'm, 'f, 'd) call \<Rightarrow> ('v, 's, 'l, 'm, 'f, 'd) state \<Rightarrow> ('v, 's, 'l, 'm, 'f, 'd) state" where
  "call_bodyEncoder c s =
     s\<lparr>json_encoders := (json_encoders s)(bodyEncoder (enc s) := json_encoders s (bodyEncoder (enc s)) @ [c])\<rparr>"

text \<open>The assignment \<^verbatim>\<open>e.err = x\<close>.\<close>

definition set_err :: "error \<Rightarrow> ('v, 's, 'l, 'm, 'f, 'd) state \<Rightarrow> ('v, 's, 'l, 'm, 'f, 'd) state" where
  "set_err x s = s\<lparr>enc := (enc s)\<lparr>err := Some x\<rparr>\<rparr>"

text \<open>
  \<^verbatim>\<open>NewEncoder\<close>: the method is read from the request, the two delegate encoders are
  fresh objects (no call received yet), \<open>buf\<close> and \<open>err\<close> keep their zero value.
  The argument is \<^verbatim>\<open>req.Method\<close>.
\<close>

definition NewEncoder :: "string \<Rightarrow> ('v, 's, 'l, 'm, 'f, 'd) state" where
  "NewEncoder req_Method =
     \<lparr>enc = \<lparr>method_str = req_Method, reqEncoder = 0, bodyEncoder = 0, buf = None, err = None\<rparr>,
      rest_encoders = (\<lambda>_. []),
      json_encoders = (\<lambda>_. [])\<rparr>"

subsection \<open>The Set operations\<close>

text \<open>
  In each of them the first parameter \<open>ts\<close> is the text that the verb \<^verbatim>\<open>%s\<close> of
  \<^verbatim>\<open>fmt.Errorf\<close> prints for a target; it depends on the declaration of
  \<^verbatim>\<open>protocol.Target\<close>, which is not in the file. A \<^verbatim>\<open>fallthrough\<close> case has the
  body of the case it falls into.
\<close>

definition SetValue ::
  "(Target \<Rightarrow> string) \<Rightarrow> Target \<Rightarrow> string \<Rightarrow> 'v \<Rightarrow> 'd \<Rightarrow>
   ('v, 's, 'l, 'm, 'f, 'd) state \<Rightarrow> ('v, 's, 'l, 'm, 'f, 'd) state" where
  "SetValue ts t k v meta s =
     (if err (enc s) \<noteq> None then s
      else case t of
        PathTarget \<Rightarrow> call_reqEncoder (SetValueCall t k v meta) s
      | QueryTarget \<Rightarrow> call_reqEncoder (SetValueCall t k v meta) s
      | HeaderTarget \<Rightarrow> call_reqEncoder (SetValueCall t k v meta) s
      | BodyTarget \<Rightarrow>
          (if method_str (enc s) = ''GET'' then call_reqEncoder (SetValueCall t k v meta) s
           else call_bodyEncoder (SetValueCall t k v meta) s)
      | PayloadTarget \<Rightarrow>
          (if method_str (enc s) = ''GET'' then call_reqEncoder (SetValueCall t k v meta) s
           else call_bodyEncoder (SetValueCall t k v meta) s)
      | _ \<Rightarrow> set_err (Errorf (''unknown SetValue restjson encode target, '' @ ts t @ '', '' @ k)) s)"

definition SetStream ::
  "(Target \<Rightarrow> string) \<Rightarrow> Target \<Rightarrow> string \<Rightarrow> 's \<Rightarrow> 'd \<Rightarrow>
   ('v, 's, 'l, 'm, 'f, 'd) state \<Rightarrow> ('v, 's, 'l, 'm, 'f, 'd) state" where
  "SetStream ts t k v meta s =
     (if err (enc s) \<noteq> None then s
      else case t of
        PayloadTarget \<Rightarrow> call_reqEncoder (SetStreamCall t k v meta) s
      | _ \<Rightarrow> set_err (Errorf (''invalid target '' @ ts t @ '', for SetStream, must be PayloadTarget'')) s)"

definition SetList ::
  "(Target \<Rightarrow> string) \<Rightarrow> Target \<Rightarrow> string \<Rightarrow> 'l \<Rightarrow> 'd \<Rightarrow>
   ('v, 's, 'l, 'm, 'f, 'd) state \<Rightarrow> ('v, 's, 'l, 'm, 'f, 'd) state" where
  "SetList ts t k fn meta s =
     (if err (enc s) \<noteq> None then s
      else case t of
        HeaderTarget \<Rightarrow> call_reqEncoder (SetListCall t k fn meta) s
      | QueryTarget \<Rightarrow> call_reqEncoder (SetListCall t k fn meta) s
      | BodyTarget \<Rightarrow> call_bodyEncoder (SetListCall t k fn meta) s
      | _ \<Rightarrow> set_err (Errorf (''unknown SetList restjson encode target, '' @ ts t @ '', '' @ k)) s)"

definition SetMap ::
  "(Target \<Rightarrow> string) \<Rightarrow> Target \<Rightarrow> string \<Rightarrow> 'm \<Rightarrow> 'd \<Rightarrow>
   ('v, 's, 'l, 'm, 'f, 'd) state \<Rightarrow> ('v, 's, 'l, 'm, 'f, 'd) state" where
  "SetMap ts t k fn meta s =
     (if err (enc s) \<noteq> None then s
      else case t of
        QueryTarget \<Rightarrow> call_reqEncoder (SetMapCall t k fn meta) s
      | HeadersTarget \<Rightarrow> call_reqEncoder (SetMapCall t k fn meta) s
      | BodyTarget \<Rightarrow> call_bodyEncoder (SetMapCall t k fn meta) s
      | _ \<Rightarrow> set_err (Errorf (''unknown SetMap restjson encode target, '' @ ts t @ '', '' @ k)) s)"

definition SetFields ::
  "(Target \<Rightarrow> string) \<Rightarrow> Target \<Rightarrow> string \<Rightarrow> 'f \<Rightarrow> 'd \<Rightarrow>
   ('v, 's, 'l, 'm, 'f, 'd) state \<Rightarrow> ('v, 's, 'l, 'm, 'f, 'd) state" where
  "SetFields ts t k m meta s =
     (if err (enc s) \<noteq> None then s
      else case t of
        PayloadTarget \<Rightarrow> call_bodyEncoder (SetFieldsCall t k m meta) s
      | BodyTarget \<Rightarrow> call_bodyEncoder (SetFieldsCall t k m meta) s
      | _ \<Rightarrow> set_err (Errorf (''unknown SetMarshaler restjson encode target, '' @ ts t @ '', '' @ k)) s)"

subsection \<open>Encode\<close>

text \<open>
  Modelled from the spec: the \<^verbatim>\<open>Encode\<close> methods of the two delegate encoders are
  not part of \<^verbatim>\<open>encode.go\<close>. Following the spec (finalising yields the finished
  request with an optional raw-payload reader, respectively an optional
  structured-body reader, or an error), what they return is a parameter: a function
  of the calls the object has received since it was created for the request,
  returning \<open>Inl\<close> of the error or \<open>Inr\<close> of the values. \<open>None\<close> is
  \<^verbatim>\<open>nil\<close>. The call itself is recorded at the object.

  \<open>Encode\<close> returns the state after the call together with the three values the Go
  function returns.
\<close>

definition Encode ::
  "(('v, 's, 'l, 'm, 'f, 'd) call list \<Rightarrow> error + ('q option \<times> 'r option)) \<Rightarrow>
   (('v, 's, 'l, 'm, 'f, 'd) call list \<Rightarrow> error + 'r option) \<Rightarrow>
   ('v, 's, 'l, 'm, 'f, 'd) state \<Rightarrow>
   ('v, 's, 'l, 'm, 'f, 'd) state \<times> ('q option \<times> 'r option \<times> error option)" where
  "Encode rest_Encode json_Encode s =
     (let s1 = call_reqEncoder EncodeCall s in
      case rest_Encode (rest_calls s) of
        Inl err1 \<Rightarrow> (s1, (None, None, Some err1))
      | Inr (req, payloadBody) \<Rightarrow>
          (let s2 = call_bodyEncoder EncodeCall s1 in
           case json_Encode (json_calls s1) of
             Inl err2 \<Rightarrow> (s2, (None, None, Some err2))
           | Inr jsonBody \<Rightarrow>
               (let havePayload = (payloadBody \<noteq> None);
                    haveJSON = (jsonBody \<noteq> None)
                in if havePayload = haveJSON \<and> haveJSON
                   then (s2, (None, None,
                          Some (Errorf ''unexpected JSON body and request payload for AWSMarshaler'')))
                   else (let body = (if payloadBody = None then jsonBody else payloadBody)
                         in (s2, (req, body, None))))))"

subsection \<open>Concrete values for evaluating examples\<close>

text \<open>
  Modelled from the spec: the \<^verbatim>\<open>String\<close> method of \<^verbatim>\<open>protocol.Target\<close> is not
  part of \<^verbatim>\<open>encode.go\<close>. Every general theorem below holds for an arbitrary rendering
  \<open>ts\<close>; the examples need one, and \<open>Target_text\<close> prints each target under the
  name the spec gives it.
\<close>

fun Target_text :: "Target \<Rightarrow> string" where
  "Target_text PathTarget = ''Path''"
| "Target_text QueryTarget = ''Query''"
| "Target_text HeaderTarget = ''Header''"
| "Target_text HeadersTarget = ''Headers''"
| "Target_text BodyTarget = ''Body''"
| "Target_text PayloadTarget = ''Payload''"
| "Target_text (OtherTarget n) = ''Other''"

text \<open>In the examples every opaque argument is a string and the metadata is empty.\<close>

type_synonym example_state = "(string, string, string, string, string, unit) state"

section \<open>Properties\<close>

subsection \<open>Frame facts of the primitive steps\<close>

lemma call_reqEncoder_simps:
  "enc (call_reqEncoder c s) = enc s"
  "json_encoders (call_reqEncoder c s) = json_encoders s"
  "rest_calls (call_reqEncoder c s) = rest_calls s @ [c]"
  "json_calls (call_reqEncoder c s) = json_calls s"
  "r \<noteq> reqEncoder (enc s) \<Longrightarrow> rest_encoders (call_reqEncoder c s) r = rest_encoders s r"
  by (simp_all add: call_reqEncoder_def rest_calls_def json_calls_def)

lemma call_bodyEncoder_simps:
  "enc (call_bodyEncoder c s) = enc s"
  "rest_encoders (call_bodyEncoder c s) = rest_encoders s"
  "json_calls (call_bodyEncoder c s) = json_calls s @ [c]"
  "rest_calls (call_bodyEncoder c s) = rest_calls s"
  "r \<noteq> bodyEncoder (enc s) \<Longrightarrow> json_encoders (call_bodyEncoder c s) r = json_encoders s r"
  by (simp_all add: call_bodyEncoder_def rest_calls_def json_calls_def)

lemma set_err_simps:
  "err (enc (set_err x s)) = Some x"
  "method_str (enc (set_err x s)) = method_str (enc s)"
  "reqEncoder (enc (set_err x s)) = reqEncoder (enc s)"
  "bodyEncoder (enc (set_err x s)) = bodyEncoder (enc s)"
  "buf (enc (set_err x s)) = buf (enc s)"
  "rest_encoders (set_err x s) = rest_encoders s"
  "json_encoders (set_err x s) = json_encoders s"
  "rest_calls (set_err x s) = rest_calls s"
  "json_calls (set_err x s) = json_calls s"
  by (simp_all add: set_err_def rest_calls_def json_calls_def)

lemmas Set_defs = SetValue_def SetStream_def SetList_def SetMap_def SetFields_def

lemmas store_defs =
  call_reqEncoder_def call_bodyEncoder_def set_err_def rest_calls_def json_calls_def NewEncoder_def

subsection \<open>Where a message mentions a word\<close>

text \<open>
  A message names a word when the word occurs in it as a contiguous run of characters
  (\<open>sublist\<close>).
\<close>

lemma sublist_SetValue_message:
  "sublist ''SetValue'' (''unknown SetValue restjson encode target, '' @ r)"
proof -
  have "''unknown SetValue restjson encode target, '' @ r
      = ''unknown '' @ ''SetValue'' @ ('' restjson encode target, '' @ r)"
    by simp
  then show ?thesis by (simp only: sublist_appendI)
qed

lemma sublist_SetList_message:
  "sublist ''SetList'' (''unknown SetList restjson encode target, '' @ r)"
proof -
  have "''unknown SetList restjson encode target, '' @ r
      = ''unknown '' @ ''SetList'' @ ('' restjson encode target, '' @ r)"
    by simp
  then show ?thesis by (simp only: sublist_appendI)
qed

lemma sublist_SetMap_message:
  "sublist ''SetMap'' (''unknown SetMap restjson encode target, '' @ r)"
proof -
  have "''unknown SetMap restjson encode target, '' @ r
      = ''unknown '' @ ''SetMap'' @ ('' restjson encode target, '' @ r)"
    by simp
  then show ?thesis by (simp only: sublist_appendI)
qed

lemma sublist_SetStream_message:
  "sublist ''SetStream'' (a @ r @ '', for SetStream, must be PayloadTarget'')"
proof -
  have "a @ r @ '', for SetStream, must be PayloadTarget''
      = (a @ r @ '', for '') @ ''SetStream'' @ '', must be PayloadTarget''"
    by simp
  then show ?thesis by (simp only: sublist_appendI)
qed

lemma sublist_last_part: "sublist k (a @ b @ c @ k)"
proof -
  have "a @ b @ c @ k = (a @ b @ c) @ k @ []" by simp
  then show ?thesis by (simp only: sublist_appendI)
qed

lemma sublist_second_part: "sublist b (a @ b @ c)"
  by (rule sublist_appendI)

subsection \<open>The latch makes every Set operation a no-op\<close>

text \<open>
  C4. In every state whose error latch is set, each of \<open>SetValue\<close>, \<open>SetStream\<close>,
  \<open>SetList\<close>, \<open>SetMap\<close> and \<open>SetFields\<close> returns the state it was given: nothing
  is forwarded to either delegate encoder, and the latched error and every other
  field stay as they were, so the latch is never written a second time.
\<close>

theorem latched_Set_is_noop:
  assumes "err (enc s) \<noteq> None"
  shows "SetValue ts t k v meta s = s
       \<and> SetStream ts t k st meta s = s
       \<and> SetList ts t k lf meta s = s
       \<and> SetMap ts t k mf meta s = s
       \<and> SetFields ts t k fm meta s = s"
  using assms by (simp add: SetValue_def SetStream_def SetList_def SetMap_def SetFields_def)

theorem latched_Set_is_noop_witness:
  "err (enc (SetMap Target_text HeaderTarget ''h'' ''fn'' () (NewEncoder ''POST'' :: example_state)))
     = Some (Errorf ''unknown SetMap restjson encode target, Header, h'')
   \<and> SetValue Target_text QueryTarget ''q'' ''v'' ()
        (SetMap Target_text HeaderTarget ''h'' ''fn'' () (NewEncoder ''POST'' :: example_state))
     = SetMap Target_text HeaderTarget ''h'' ''fn'' () (NewEncoder ''POST'' :: example_state)
   \<and> SetStream Target_text PayloadTarget ''data'' ''stream'' ()
        (SetMap Target_text HeaderTarget ''h'' ''fn'' () (NewEncoder ''POST'' :: example_state))
     = SetMap Target_text HeaderTarget ''h'' ''fn'' () (NewEncoder ''POST'' :: example_state)
   \<and> SetFields Target_text PathTarget ''meta'' ''fields'' ()
        (SetMap Target_text HeaderTarget ''h'' ''fn'' () (NewEncoder ''POST'' :: example_state))
     = SetMap Target_text HeaderTarget ''h'' ''fn'' () (NewEncoder ''POST'' :: example_state)"
proof -
  let ?s = "SetMap Target_text HeaderTarget ''h'' ''fn'' () (NewEncoder ''POST'' :: example_state)"
  have e: "err (enc ?s) = Some (Errorf ''unknown SetMap restjson encode target, Header, h'')"
    by (simp add: SetMap_def store_defs)
  then have h: "err (enc ?s) \<noteq> None"
    by simp
  from e
    latched_Set_is_noop [OF h, of Target_text QueryTarget "''q''" "''v''" "()"]
    latched_Set_is_noop [OF h, of Target_text PayloadTarget "''data''" _ _ "''stream''"]
    latched_Set_is_noop [OF h, of Target_text PathTarget "''meta''" _ _ _ _ _ "''fields''"]
  show ?thesis by simp
qed

subsection \<open>Routing of scalar values for the body\<close>

text \<open>
  C2 (amended). For a \<open>SetValue\<close> call with target Body or Payload on an encoder
  that has no error latched: when the method is exactly \<^verbatim>\<open>GET\<close>, the call is
  forwarded, arguments unchanged, to \<open>reqEncoder\<close> and no body encoder is touched;
  for every other method string (\<^verbatim>\<open>get\<close> included) it is forwarded to
  \<open>bodyEncoder\<close> and no request encoder is touched.
\<close>

theorem SetValue_Body_Payload_routing:
  assumes "err (enc s) = None" and "t = BodyTarget \<or> t = PayloadTarget"
  shows "(method_str (enc s) = ''GET'' \<longrightarrow>
            rest_calls (SetValue ts t k v meta s) = rest_calls s @ [SetValueCall t k v meta]
          \<and> json_encoders (SetValue ts t k v meta s) = json_encoders s)
       \<and> (method_str (enc s) \<noteq> ''GET'' \<longrightarrow>
            json_calls (SetValue ts t k v meta s) = json_calls s @ [SetValueCall t k v meta]
          \<and> rest_encoders (SetValue ts t k v meta s) = rest_encoders s)"
  using assms by (auto simp add: SetValue_def call_reqEncoder_simps call_bodyEncoder_simps)

text \<open>The method \<^verbatim>\<open>GET\<close>, and the method \<^verbatim>\<open>get\<close>, which is not redirected.\<close>

theorem SetValue_Body_Payload_routing_witness:
  "rest_calls (SetValue Target_text BodyTarget ''name'' ''alice'' () (NewEncoder ''GET'' :: example_state))
     = [SetValueCall BodyTarget ''name'' ''alice'' ()]
   \<and> json_calls (SetValue Target_text BodyTarget ''name'' ''alice'' () (NewEncoder ''GET'' :: example_state)) = []
   \<and> json_calls (SetValue Target_text PayloadTarget ''name'' ''alice'' () (NewEncoder ''get'' :: example_state))
     = [SetValueCall PayloadTarget ''name'' ''alice'' ()]
   \<and> rest_calls (SetValue Target_text PayloadTarget ''name'' ''alice'' () (NewEncoder ''get'' :: example_state)) = []"
proof -
  have a: "err (enc (NewEncoder ''GET'' :: example_state)) = None"
    and b: "err (enc (NewEncoder ''get'' :: example_state)) = None"
    by (simp_all add: NewEncoder_def)
  have c: "BodyTarget = BodyTarget \<or> BodyTarget = PayloadTarget"
    and d: "PayloadTarget = BodyTarget \<or> PayloadTarget = PayloadTarget"
    by simp_all
  from SetValue_Body_Payload_routing [OF a c, of Target_text "''name''" "''alice''" "()"]
       SetValue_Body_Payload_routing [OF b d, of Target_text "''name''" "''alice''" "()"]
  show ?thesis by (simp add: store_defs)
qed

text \<open>
  C2 as stated, without the condition on the latch, fails: after \<open>SetMap\<close> with
  target Header has latched its error, a Body value reaches \<open>reqEncoder\<close> under
  \<^verbatim>\<open>GET\<close> as little as it reaches \<open>bodyEncoder\<close> under \<^verbatim>\<open>POST\<close>.
\<close>

theorem SetValue_Body_Payload_routing_counterexample:
  "method_str (enc (SetMap Target_text HeaderTarget ''h'' ''fn'' () (NewEncoder ''GET'' :: example_state))) = ''GET''
   \<and> SetValueCall BodyTarget ''name'' ''alice'' () \<notin> set (rest_calls
        (SetValue Target_text BodyTarget ''name'' ''alice'' ()
          (SetMap Target_text HeaderTarget ''h'' ''fn'' () (NewEncoder ''GET'' :: example_state))))
   \<and> method_str (enc (SetMap Target_text HeaderTarget ''h'' ''fn'' () (NewEncoder ''POST'' :: example_state))) \<noteq> ''GET''
   \<and> SetValueCall BodyTarget ''name'' ''alice'' () \<notin> set (json_calls
        (SetValue Target_text BodyTarget ''name'' ''alice'' ()
          (SetMap Target_text HeaderTarget ''h'' ''fn'' () (NewEncoder ''POST'' :: example_state))))"
  by (simp add: SetValue_def SetMap_def store_defs)

subsection \<open>Routing of streams\<close>

text \<open>
  C5 (amended). For a \<open>SetStream\<close> call on an encoder that has no error latched,
  whatever the method: with target Payload the call is forwarded, arguments
  unchanged, to \<open>reqEncoder\<close>, no body encoder is touched and no error is latched;
  with any other target an error is latched and neither delegate encoder is touched.
\<close>

theorem SetStream_routing:
  assumes "err (enc s) = None"
  shows "(t = PayloadTarget \<longrightarrow>
            rest_calls (SetStream ts t k v meta s) = rest_calls s @ [SetStreamCall t k v meta]
          \<and> json_encoders (SetStream ts t k v meta s) = json_encoders s
          \<and> err (enc (SetStream ts t k v meta s)) = None)
       \<and> (t \<noteq> PayloadTarget \<longrightarrow>
            err (enc (SetStream ts t k v meta s)) \<noteq> None
          \<and> rest_encoders (SetStream ts t k v meta s) = rest_encoders s
          \<and> json_encoders (SetStream ts t k v meta s) = json_encoders s)"
  using assms
  by (cases t) (simp_all add: SetStream_def call_reqEncoder_simps set_err_simps)

text \<open>A payload stream under \<^verbatim>\<open>GET\<close>, and a stream tagged Body.\<close>

theorem SetStream_routing_witness:
  "rest_calls (SetStream Target_text PayloadTarget ''data'' ''streamX'' () (NewEncoder ''GET'' :: example_state))
     = [SetStreamCall PayloadTarget ''data'' ''streamX'' ()]
   \<and> json_calls (SetStream Target_text PayloadTarget ''data'' ''streamX'' () (NewEncoder ''GET'' :: example_state)) = []
   \<and> err (enc (SetStream Target_text BodyTarget ''data'' ''streamX'' () (NewEncoder ''POST'' :: example_state)))
     = Some (Errorf ''invalid target Body, for SetStream, must be PayloadTarget'')
   \<and> rest_calls (SetStream Target_text BodyTarget ''data'' ''streamX'' () (NewEncoder ''POST'' :: example_state)) = []
   \<and> json_calls (SetStream Target_text BodyTarget ''data'' ''streamX'' () (NewEncoder ''POST'' :: example_state)) = []"
proof -
  have a: "err (enc (NewEncoder ''GET'' :: example_state)) = None"
    and b: "err (enc (NewEncoder ''POST'' :: example_state)) = None"
    by (simp_all add: NewEncoder_def)
  from SetStream_routing [OF a, of PayloadTarget Target_text "''data''" "''streamX''" "()"]
       SetStream_routing [OF b, of BodyTarget Target_text "''data''" "''streamX''" "()"]
  show ?thesis by (simp add: SetStream_def store_defs)
qed

text \<open>
  C5 as stated, for every \<open>SetStream\<close> call, fails: once an error is latched, a
  stream tagged Payload does not reach \<open>reqEncoder\<close>.
\<close>

theorem SetStream_routing_counterexample:
  "SetStreamCall PayloadTarget ''data'' ''streamX'' () \<notin> set (rest_calls
        (SetStream Target_text PayloadTarget ''data'' ''streamX'' ()
          (SetMap Target_text HeaderTarget ''h'' ''fn'' () (NewEncoder ''POST'' :: example_state))))"
  by (simp add: SetStream_def SetMap_def store_defs)

subsection \<open>Routing of lists, maps and nested fields for the body\<close>

text \<open>
  C7 (amended). On an encoder that has no error latched, whatever the method
  (\<^verbatim>\<open>GET\<close> included), \<open>SetList\<close>, \<open>SetMap\<close> and \<open>SetFields\<close> with target
  Body forward the call, arguments unchanged, to \<open>bodyEncoder\<close> and touch no
  request encoder: the redirection of \<open>SetValue\<close> under \<^verbatim>\<open>GET\<close> has no
  counterpart in them.
\<close>

theorem Body_collections_routing:
  assumes "err (enc s) = None"
  shows "json_calls (SetList ts BodyTarget k lf meta s) = json_calls s @ [SetListCall BodyTarget k lf meta]
       \<and> rest_encoders (SetList ts BodyTarget k lf meta s) = rest_encoders s
       \<and> json_calls (SetMap ts BodyTarget k mf meta s) = json_calls s @ [SetMapCall BodyTarget k mf meta]
       \<and> rest_encoders (SetMap ts BodyTarget k mf meta s) = rest_encoders s
       \<and> json_calls (SetFields ts BodyTarget k fm meta s) = json_calls s @ [SetFieldsCall BodyTarget k fm meta]
       \<and> rest_encoders (SetFields ts BodyTarget k fm meta s) = rest_encoders s"
  using assms by (simp add: SetList_def SetMap_def SetFields_def call_bodyEncoder_simps)

text \<open>All three under the method \<^verbatim>\<open>GET\<close>.\<close>

theorem Body_collections_routing_witness:
  "json_calls (SetList Target_text BodyTarget ''tags'' ''listFn'' () (NewEncoder ''GET'' :: example_state))
     = [SetListCall BodyTarget ''tags'' ''listFn'' ()]
   \<and> rest_calls (SetList Target_text BodyTarget ''tags'' ''listFn'' () (NewEncoder ''GET'' :: example_state)) = []
   \<and> json_calls (SetMap Target_text BodyTarget ''attrs'' ''mapFn'' () (NewEncoder ''GET'' :: example_state))
     = [SetMapCall BodyTarget ''attrs'' ''mapFn'' ()]
   \<and> rest_calls (SetMap Target_text BodyTarget ''attrs'' ''mapFn'' () (NewEncoder ''GET'' :: example_state)) = []
   \<and> json_calls (SetFields Target_text BodyTarget ''meta'' ''fieldsY'' () (NewEncoder ''GET'' :: example_state))
     = [SetFieldsCall BodyTarget ''meta'' ''fieldsY'' ()]
   \<and> rest_calls (SetFields Target_text BodyTarget ''meta'' ''fieldsY'' () (NewEncoder ''GET'' :: example_state)) = []"
proof -
  have a: "err (enc (NewEncoder ''GET'' :: example_state)) = None"
    by (simp add: NewEncoder_def)
  from Body_collections_routing [OF a, of Target_text "''tags''" "''listFn''" "()"]
       Body_collections_routing [OF a, of Target_text "''attrs''" _ "()" "''mapFn''"]
       Body_collections_routing [OF a, of Target_text "''meta''" _ "()" _ "''fieldsY''"]
  show ?thesis by (simp add: store_defs)
qed

text \<open>
  C7 as stated, with calls that always forward, fails: once an error is latched, none
  of the three reaches \<open>bodyEncoder\<close>.
\<close>

theorem Body_collections_routing_counterexample:
  "SetListCall BodyTarget ''tags'' ''listFn'' () \<notin> set (json_calls
        (SetList Target_text BodyTarget ''tags'' ''listFn'' ()
          (SetStream Target_text HeaderTarget ''data'' ''streamX'' () (NewEncoder ''POST'' :: example_state))))
   \<and> SetMapCall BodyTarget ''attrs'' ''mapFn'' () \<notin> set (json_calls
        (SetMap Target_text BodyTarget ''attrs'' ''mapFn'' ()
          (SetStream Target_text HeaderTarget ''data'' ''streamX'' () (NewEncoder ''POST'' :: example_state))))
   \<and> SetFieldsCall BodyTarget ''meta'' ''fieldsY'' () \<notin> set (json_calls
        (SetFields Target_text BodyTarget ''meta'' ''fieldsY'' ()
          (SetStream Target_text HeaderTarget ''data'' ''streamX'' () (NewEncoder ''POST'' :: example_state))))"
  by (simp add: SetList_def SetMap_def SetFields_def SetStream_def store_defs)

subsection \<open>Targets an operation does not accept\<close>

text \<open>
  C8. On an encoder that has no error latched, each Set operation called with a
  target that is none of the case labels of its switch latches an error and leaves
  every request encoder and every body encoder as it was: nothing is forwarded on the
  error path.
\<close>

theorem invalid_target_latches:
  assumes "err (enc s) = None"
  shows "(t \<notin> {PathTarget, QueryTarget, HeaderTarget, BodyTarget, PayloadTarget} \<longrightarrow>
            err (enc (SetValue ts t k v meta s)) \<noteq> None
          \<and> rest_encoders (SetValue ts t k v meta s) = rest_encoders s
          \<and> json_encoders (SetValue ts t k v meta s) = json_encoders s)
       \<and> (t \<notin> {PayloadTarget} \<longrightarrow>
            err (enc (SetStream ts t k st meta s)) \<noteq> None
          \<and> rest_encoders (SetStream ts t k st meta s) = rest_encoders s
          \<and> json_encoders (SetStream ts t k st meta s) = json_encoders s)
       \<and> (t \<notin> {HeaderTarget, QueryTarget, BodyTarget} \<longrightarrow>
            err (enc (SetList ts t k lf meta s)) \<noteq> None
          \<and> rest_encoders (SetList ts t k lf meta s) = rest_encoders s
          \<and> json_encoders (SetList ts t k lf meta s) = json_encoders s)
       \<and> (t \<notin> {QueryTarget, HeadersTarget, BodyTarget} \<longrightarrow>
            err (enc (SetMap ts t k mf meta s)) \<noteq> None
          \<and> rest_encoders (SetMap ts t k mf meta s) = rest_encoders s
          \<and> json_encoders (SetMap ts t k mf meta s) = json_encoders s)
       \<and> (t \<notin> {PayloadTarget, BodyTarget} \<longrightarrow>
            err (enc (SetFields ts t k fm meta s)) \<noteq> None
          \<and> rest_encoders (SetFields ts t k fm meta s) = rest_encoders s
          \<and> json_encoders (SetFields ts t k fm meta s) = json_encoders s)"
  using assms
  by (cases t) (simp_all add: Set_defs set_err_simps)

text \<open>One rejected target for each of the five operations.\<close>

theorem invalid_target_latches_witness:
  "err (enc (SetValue Target_text HeadersTarget ''h'' ''v'' () (NewEncoder ''POST'' :: example_state))) \<noteq> None
   \<and> rest_calls (SetValue Target_text HeadersTarget ''h'' ''v'' () (NewEncoder ''POST'' :: example_state)) = []
   \<and> json_calls (SetValue Target_text HeadersTarget ''h'' ''v'' () (NewEncoder ''POST'' :: example_state)) = []
   \<and> err (enc (SetStream Target_text HeaderTarget ''data'' ''streamX'' () (NewEncoder ''POST'' :: example_state))) \<noteq> None
   \<and> err (enc (SetList Target_text PathTarget ''tags'' ''listFn'' () (NewEncoder ''POST'' :: example_state))) \<noteq> None
   \<and> err (enc (SetMap Target_text HeaderTarget ''h'' ''mapFn'' () (NewEncoder ''POST'' :: example_state))) \<noteq> None
   \<and> rest_calls (SetMap Target_text HeaderTarget ''h'' ''mapFn'' () (NewEncoder ''POST'' :: example_state)) = []
   \<and> json_calls (SetMap Target_text HeaderTarget ''h'' ''mapFn'' () (NewEncoder ''POST'' :: example_state)) = []
   \<and> err (enc (SetFields Target_text QueryTarget ''meta'' ''fieldsY'' () (NewEncoder ''POST'' :: example_state))) \<noteq> None"
proof -
  have a: "err (enc (NewEncoder ''POST'' :: example_state)) = None"
    by (simp add: NewEncoder_def)
  from invalid_target_latches [OF a, of HeadersTarget Target_text "''h''" "''v''" "()"]
       invalid_target_latches [OF a, of HeaderTarget Target_text "''data''" _ "()" "''streamX''"]
       invalid_target_latches [OF a, of PathTarget Target_text "''tags''" _ "()" _ "''listFn''"]
       invalid_target_latches [OF a, of HeaderTarget Target_text "''h''" _ "()" _ _ "''mapFn''"]
       invalid_target_latches [OF a, of QueryTarget Target_text "''meta''" _ "()" _ _ _ "''fieldsY''"]
  show ?thesis by (simp add: store_defs)
qed

text \<open>
  C9 (amended). On an encoder that has no error latched, a target that the operation
  does not accept latches an error whose message names: for \<open>SetValue\<close>,
  \<open>SetList\<close> and \<open>SetMap\<close>, the operation, the target and the key; for
  \<open>SetFields\<close>, the target and the key; for \<open>SetStream\<close>, the operation and the
  target, the message being the same for every key.
\<close>

theorem routing_error_message:
  assumes "err (enc s) = None"
  shows "(t \<notin> {PathTarget, QueryTarget, HeaderTarget, BodyTarget, PayloadTarget} \<longrightarrow>
            (\<exists>m. err (enc (SetValue ts t k v meta s)) = Some (Errorf m)
               \<and> sublist ''SetValue'' m \<and> sublist (ts t) m \<and> sublist k m))
       \<and> (t \<notin> {HeaderTarget, QueryTarget, BodyTarget} \<longrightarrow>
            (\<exists>m. err (enc (SetList ts t k lf meta s)) = Some (Errorf m)
               \<and> sublist ''SetList'' m \<and> sublist (ts t) m \<and> sublist k m))
       \<and> (t \<notin> {QueryTarget, HeadersTarget, BodyTarget} \<longrightarrow>
            (\<exists>m. err (enc (SetMap ts t k mf meta s)) = Some (Errorf m)
               \<and> sublist ''SetMap'' m \<and> sublist (ts t) m \<and> sublist k m))
       \<and> (t \<notin> {PayloadTarget, BodyTarget} \<longrightarrow>
            (\<exists>m. err (enc (SetFields ts t k fm meta s)) = Some (Errorf m)
               \<and> sublist (ts t) m \<and> sublist k m))
       \<and> (t \<notin> {PayloadTarget} \<longrightarrow>
            (\<exists>m. (\<forall>k'. err (enc (SetStream ts t k' st meta s)) = Some (Errorf m))
               \<and> sublist ''SetStream'' m \<and> sublist (ts t) m))"
  using assms
  by (cases t)
     (simp_all add: Set_defs set_err_simps sublist_SetValue_message sublist_SetList_message
        sublist_SetMap_message sublist_SetStream_message sublist_last_part sublist_second_part
        del: append.simps append_Cons append_Nil)

text \<open>The five messages for the rendering \<open>Target_text\<close>.\<close>

theorem routing_error_message_witness:
  "err (enc (SetValue Target_text HeadersTarget ''h'' ''v'' () (NewEncoder ''POST'' :: example_state)))
     = Some (Errorf ''unknown SetValue restjson encode target, Headers, h'')
   \<and> err (enc (SetList Target_text PathTarget ''tags'' ''listFn'' () (NewEncoder ''POST'' :: example_state)))
     = Some (Errorf ''unknown SetList restjson encode target, Path, tags'')
   \<and> err (enc (SetMap Target_text HeaderTarget ''h'' ''mapFn'' () (NewEncoder ''POST'' :: example_state)))
     = Some (Errorf ''unknown SetMap restjson encode target, Header, h'')
   \<and> sublist ''SetMap'' ''unknown SetMap restjson encode target, Header, h''
   \<and> sublist ''Header'' ''unknown SetMap restjson encode target, Header, h''
   \<and> sublist ''h'' ''unknown SetMap restjson encode target, Header, h''
   \<and> err (enc (SetFields Target_text QueryTarget ''meta'' ''fieldsY'' () (NewEncoder ''POST'' :: example_state)))
     = Some (Errorf ''unknown SetMarshaler restjson encode target, Query, meta'')
   \<and> sublist ''meta'' ''unknown SetMarshaler restjson encode target, Query, meta''
   \<and> err (enc (SetStream Target_text HeaderTarget ''data'' ''streamX'' () (NewEncoder ''POST'' :: example_state)))
     = Some (Errorf ''invalid target Header, for SetStream, must be PayloadTarget'')
   \<and> sublist ''SetStream'' ''invalid target Header, for SetStream, must be PayloadTarget''"
proof -
  have a: "err (enc (NewEncoder ''POST'' :: example_state)) = None"
    by (simp add: NewEncoder_def)
  from routing_error_message [OF a, of HeadersTarget Target_text "''h''" "''v''" "()"]
       routing_error_message [OF a, of PathTarget Target_text "''tags''" _ "()" "''listFn''"]
       routing_error_message [OF a, of HeaderTarget Target_text "''h''" _ "()" _ "''mapFn''"]
       routing_error_message [OF a, of QueryTarget Target_text "''meta''" _ "()" _ _ "''fieldsY''"]
       routing_error_message [OF a, of HeaderTarget Target_text "''data''" _ "()" _ _ _ "''streamX''"]
  show ?thesis by (simp add: Set_defs store_defs sublist_code)
qed

text \<open>
  C9 as stated fails twice: the message of \<open>SetStream\<close> does not contain the key
  \<^verbatim>\<open>data\<close>, and the message of \<open>SetFields\<close> does not contain the name
  \<^verbatim>\<open>SetFields\<close> (it says \<^verbatim>\<open>SetMarshaler\<close>).
\<close>

theorem routing_error_message_counterexample:
  "err (enc (SetStream Target_text HeaderTarget ''data'' ''streamX'' () (NewEncoder ''PUT'' :: example_state)))
     = Some (Errorf ''invalid target Header, for SetStream, must be PayloadTarget'')
   \<and> \<not> sublist ''data'' ''invalid target Header, for SetStream, must be PayloadTarget''
   \<and> err (enc (SetFields Target_text QueryTarget ''meta'' ''fieldsY'' () (NewEncoder ''PUT'' :: example_state)))
     = Some (Errorf ''unknown SetMarshaler restjson encode target, Query, meta'')
   \<and> \<not> sublist ''SetFields'' ''unknown SetMarshaler restjson encode target, Query, meta''"
  by (simp add: Set_defs store_defs sublist_code)

text \<open>
  The first failure does not depend on the rendering of targets: the message of
  \<open>SetStream\<close> is built without the key, so for every rendering there is a key
  that the message does not contain.
\<close>

lemma SetStream_message_omits_key:
  assumes "err (enc s) = None" and "t \<noteq> PayloadTarget"
  shows "\<exists>k m. err (enc (SetStream ts t k st meta s)) = Some (Errorf m) \<and> \<not> sublist k m"
proof -
  let ?m = "''invalid target '' @ ts t @ '', for SetStream, must be PayloadTarget''"
  let ?k = "replicate (Suc (length ?m)) (CHR ''k'')"
  have "err (enc (SetStream ts t ?k st meta s)) = Some (Errorf ?m)"
    using assms by (cases t) (simp_all add: SetStream_def set_err_simps)
  moreover have "\<not> sublist ?k ?m"
  proof
    assume "sublist ?k ?m"
    then have "length ?k \<le> length ?m" by (rule sublist_length_le)
    then show False by simp
  qed
  ultimately show ?thesis by blast
qed

subsection \<open>Encode: what it returns\<close>

text \<open>
  \<open>Encode\<close> never reads \<open>err\<close>: the values it returns are the same with and
  without a latched error.
\<close>

lemma Encode_blind_to_latch:
  "snd (Encode rest_Encode json_Encode (set_err x s)) = snd (Encode rest_Encode json_Encode s)"
  by (auto simp add: Encode_def Let_def set_err_simps call_reqEncoder_simps
      split: sum.splits prod.splits)

text \<open>
  C1. The claim: when a Set call has latched a routing error before \<open>Encode\<close> is
  called, \<open>Encode\<close> returns that error instead of attempting finalisation. The code
  at this input: on an encoder for a \<^verbatim>\<open>POST\<close> request, \<open>SetStream\<close> with target
  Header latches its error; \<open>Encode\<close>, with delegate encoders that finalise
  without error and without body, then finalises both of them (each receives its
  \<open>EncodeCall\<close>) and returns the request with no body and no error. The latched
  error is not returned.
\<close>

theorem Encode_drops_latched_error:
  "err (enc (SetStream Target_text HeaderTarget ''data'' ''stream'' () (NewEncoder ''POST'' :: example_state)))
     = Some (Errorf ''invalid target Header, for SetStream, must be PayloadTarget'')
   \<and> snd (Encode (\<lambda>_. Inr (Some ''request'', None)) (\<lambda>_. Inr (None :: string option))
        (SetStream Target_text HeaderTarget ''data'' ''stream'' () (NewEncoder ''POST'' :: example_state)))
     = (Some ''request'', None, None)
   \<and> rest_calls (fst (Encode (\<lambda>_. Inr (Some ''request'', None)) (\<lambda>_. Inr (None :: string option))
        (SetStream Target_text HeaderTarget ''data'' ''stream'' () (NewEncoder ''POST'' :: example_state))))
     = [EncodeCall]
   \<and> json_calls (fst (Encode (\<lambda>_. Inr (Some ''request'', None)) (\<lambda>_. Inr (None :: string option))
        (SetStream Target_text HeaderTarget ''data'' ''stream'' () (NewEncoder ''POST'' :: example_state))))
     = [EncodeCall]"
  by (simp add: Encode_def SetStream_def store_defs)

text \<open>
  C3. When the delegate encoders both finalise with a reader present (the raw-payload
  reader of \<open>reqEncoder\<close> and the structured-body reader of \<open>bodyEncoder\<close>),
  \<open>Encode\<close> returns the error of the ambiguous body, with a \<^verbatim>\<open>nil\<close> request and a
  \<^verbatim>\<open>nil\<close> body.
\<close>

theorem Encode_ambiguous_body:
  assumes "rest_Encode (rest_calls s) = Inr (req, Some p)"
    and "json_Encode (json_calls s) = Inr (Some j)"
  shows "snd (Encode rest_Encode json_Encode s)
       = (None, None, Some (Errorf ''unexpected JSON body and request payload for AWSMarshaler''))"
  using assms by (simp add: Encode_def call_reqEncoder_simps)

text \<open>
  The spec's example: a \<^verbatim>\<open>POST\<close> request, a stream for the payload and then
  nested fields for the body.
\<close>

theorem Encode_ambiguous_body_witness:
  "snd (Encode (\<lambda>_. Inr (Some ''request'', Some ''streamX'')) (\<lambda>_. Inr (Some ''json''))
        (SetFields Target_text BodyTarget ''meta'' ''fieldsY'' ()
          (SetStream Target_text PayloadTarget ''data'' ''streamX'' ()
            (NewEncoder ''POST'' :: example_state))))
     = (None, None, Some (Errorf ''unexpected JSON body and request payload for AWSMarshaler''))"
proof -
  let ?s = "SetFields Target_text BodyTarget ''meta'' ''fieldsY'' ()
          (SetStream Target_text PayloadTarget ''data'' ''streamX'' ()
            (NewEncoder ''POST'' :: example_state))"
  have a: "(\<lambda>_. Inr (Some ''request'', Some ''streamX'')) (rest_calls ?s)
             = (Inr (Some ''request'', Some ''streamX'') :: error + (string option \<times> string option))"
    by simp
  have b: "(\<lambda>_. Inr (Some ''json'')) (json_calls ?s) = (Inr (Some ''json'') :: error + string option)"
    by simp
  from Encode_ambiguous_body [OF a b] show ?thesis .
qed

text \<open>
  C6. When \<open>Encode\<close> returns without error, both delegate encoders have finalised
  without error, the request is the one \<open>reqEncoder\<close> returned, and the body is the
  raw-payload reader if there is one, otherwise the structured-body reader, which may
  be absent. In particular, when neither delegate encoder produces a reader,
  \<open>Encode\<close> returns the request with an absent body and no error.
\<close>

theorem Encode_result_body:
  "(snd (Encode rest_Encode json_Encode s) = (rq, body, None) \<longrightarrow>
      (\<exists>p j. rest_Encode (rest_calls s) = Inr (rq, p) \<and> json_Encode (json_calls s) = Inr j
         \<and> body = (case p of Some x \<Rightarrow> Some x | None \<Rightarrow> j)))
   \<and> (rest_Encode (rest_calls s) = Inr (req, None) \<and> json_Encode (json_calls s) = Inr None \<longrightarrow>
      snd (Encode rest_Encode json_Encode s) = (req, None, None))"
  by (auto simp add: Encode_def Let_def call_reqEncoder_simps
      split: sum.splits prod.splits if_splits option.splits)

text \<open>
  A structured body alone, a raw payload alone, and the pure \<^verbatim>\<open>GET\<close> with a query
  value only.
\<close>

theorem Encode_result_body_witness:
  "snd (Encode (\<lambda>_. Inr (Some ''request'', None)) (\<lambda>_. Inr (Some ''json''))
        (SetValue Target_text PathTarget ''id'' ''42'' ()
          (SetValue Target_text BodyTarget ''name'' ''alice'' () (NewEncoder ''POST'' :: example_state))))
     = (Some ''request'', Some ''json'', None)
   \<and> snd (Encode (\<lambda>_. Inr (Some ''request'', Some ''streamX'')) (\<lambda>_. Inr None)
        (SetStream Target_text PayloadTarget ''data'' ''streamX'' () (NewEncoder ''PUT'' :: example_state)))
     = (Some ''request'', Some ''streamX'', None)
   \<and> snd (Encode (\<lambda>_. Inr (Some ''request'', None)) (\<lambda>_. Inr (None :: string option))
        (SetValue Target_text QueryTarget ''filter'' ''active'' () (NewEncoder ''GET'' :: example_state)))
     = (Some ''request'', None, None)"
  using
    Encode_result_body [of "\<lambda>_. Inr (Some ''request'', None)" "\<lambda>_. Inr (Some ''json'')"
      "SetValue Target_text PathTarget ''id'' ''42'' ()
          (SetValue Target_text BodyTarget ''name'' ''alice'' () (NewEncoder ''POST'' :: example_state))"
      "Some ''request''" "Some ''json''" "Some ''request''"]
    Encode_result_body [of "\<lambda>_. Inr (Some ''request'', Some ''streamX'')" "\<lambda>_. Inr None"
      "SetStream Target_text PayloadTarget ''data'' ''streamX'' () (NewEncoder ''PUT'' :: example_state)"
      "Some ''request''" "Some ''streamX''" "Some ''request''"]
    Encode_result_body [of "\<lambda>_. Inr (Some ''request'', None)" "\<lambda>_. Inr (None :: string option)"
      "SetValue Target_text QueryTarget ''filter'' ''active'' () (NewEncoder ''GET'' :: example_state)"
      "Some ''request''" "None" "Some ''request''"]
  by (simp add: Encode_def SetValue_def SetStream_def store_defs)

subsection \<open>Encode: what it leaves alone\<close>

text \<open>
  C10. \<open>Encode\<close> writes no field of the encoder: after the call the method, the two
  pointers to the delegate encoders, \<open>buf\<close> and the latched error are what they
  were before. (The objects behind the two pointers do receive their \<open>EncodeCall\<close>.)
\<close>

theorem Encode_keeps_Encoder:
  "enc (fst (Encode rest_Encode json_Encode s)) = enc s"
  by (simp add: Encode_def Let_def call_reqEncoder_simps call_bodyEncoder_simps
      split: sum.split prod.split)

end
